theory Spec2Isabelle
  imports Main
begin

section \<open>Data model: the tables of \<open>supabase/migrations\<close>\<close>

text \<open>
  Identifiers are \<open>UUID\<close> columns; only their equality matters, so they are natural
  numbers here. A nullable column is an \<open>option\<close> (\<open>None\<close> is SQL \<open>NULL\<close>). Column names
  are kept, prefixed by the table's initial because \<open>id\<close> and \<open>user_id\<close> occur in
  several tables. Free-text columns that no policy, constraint or handler reads
  (descriptions, locations, timestamps) are left out.
\<close>

type_synonym uuid = nat

datatype user_role = job_seeker | employer

record user_roles_row =
  r_id :: uuid
  r_user_id :: uuid
  r_role :: user_role

record jobs_row =
  j_id :: uuid
  j_title :: string
  j_company_id :: uuid
  j_is_active :: "bool option"
  j_user_id :: "uuid option"
  j_minimum_experience :: "int option"

record job_applications_row =
  a_id :: uuid
  a_job_id :: uuid
  a_user_id :: uuid
  a_status :: "string option"
  a_applicant_name :: "string option"
  a_applicant_email :: "string option"
  a_age :: "int option"
  a_experience_years :: "int option"
  a_resume_url :: "string option"

record db =
  user_roles :: "user_roles_row list"
  jobs :: "jobs_row list"
  job_applications :: "job_applications_row list"

section \<open>Row-level security policies\<close>

text \<open>
  \<open>auth.uid()\<close> is the caller's identifier, \<open>NULL\<close> for an anonymous caller. A policy
  expression admits a row only when it evaluates to true, so a comparison with
  \<open>NULL\<close> admits nothing.
\<close>

fun sql_eq :: "'a option \<Rightarrow> 'a option \<Rightarrow> bool" where
  "sql_eq (Some x) (Some y) = (x = y)"
| "sql_eq _ _ = False"

text \<open>
  \<open>is_job_owner(_user_id, _job_id)\<close>:
  \<open>SELECT EXISTS (SELECT 1 FROM jobs WHERE id = _job_id AND user_id = _user_id)\<close>.
\<close>

definition is_job_owner :: "db \<Rightarrow> uuid option \<Rightarrow> uuid \<Rightarrow> bool" where
  "is_job_owner d uid jid =
     list_ex (\<lambda>j. j_id j = jid \<and> sql_eq (j_user_id j) uid) (jobs d)"

text \<open>Table \<open>job_applications\<close>.\<close>

definition users_can_view_their_own_applications ::
  "uuid option \<Rightarrow> job_applications_row \<Rightarrow> bool" where
  "users_can_view_their_own_applications uid row = sql_eq uid (Some (a_user_id row))"

definition users_can_create_their_own_applications ::
  "uuid option \<Rightarrow> job_applications_row \<Rightarrow> bool" where
  "users_can_create_their_own_applications uid row = sql_eq uid (Some (a_user_id row))"

definition employers_can_view_applications_for_their_jobs ::
  "db \<Rightarrow> uuid option \<Rightarrow> job_applications_row \<Rightarrow> bool" where
  "employers_can_view_applications_for_their_jobs d uid row = is_job_owner d uid (a_job_id row)"

definition employers_can_update_applications_for_their_jobs ::
  "db \<Rightarrow> uuid option \<Rightarrow> job_applications_row \<Rightarrow> bool" where
  "employers_can_update_applications_for_their_jobs d uid row = is_job_owner d uid (a_job_id row)"

text \<open>Table \<open>jobs\<close>.\<close>

definition anyone_can_view_active_jobs :: "jobs_row \<Rightarrow> bool" where
  "anyone_can_view_active_jobs row = (j_is_active row = Some True)"

definition employers_can_insert_their_own_jobs :: "uuid option \<Rightarrow> jobs_row \<Rightarrow> bool" where
  "employers_can_insert_their_own_jobs uid row = sql_eq uid (j_user_id row)"

definition employers_can_update_their_own_jobs :: "uuid option \<Rightarrow> jobs_row \<Rightarrow> bool" where
  "employers_can_update_their_own_jobs uid row = sql_eq uid (j_user_id row)"

definition employers_can_delete_their_own_jobs :: "uuid option \<Rightarrow> jobs_row \<Rightarrow> bool" where
  "employers_can_delete_their_own_jobs uid row = sql_eq uid (j_user_id row)"

text \<open>Table \<open>user_roles\<close>.\<close>

definition users_can_view_their_own_role :: "uuid option \<Rightarrow> user_roles_row \<Rightarrow> bool" where
  "users_can_view_their_own_role uid row = sql_eq uid (Some (r_user_id row))"

definition users_can_insert_their_own_role :: "uuid option \<Rightarrow> user_roles_row \<Rightarrow> bool" where
  "users_can_insert_their_own_role uid row = sql_eq uid (Some (r_user_id row))"

text \<open>
  The policies of a table for one command are permissive: a row passes when at least
  one of them admits it. With row-level security enabled and no policy for a command,
  no row passes (default deny).
\<close>

definition permissive :: "('r \<Rightarrow> bool) list \<Rightarrow> 'r \<Rightarrow> bool" where
  "permissive ps row = list_ex (\<lambda>p. p row) ps"

definition job_applications_select_policies :: "db \<Rightarrow> uuid option \<Rightarrow> (job_applications_row \<Rightarrow> bool) list" where
  "job_applications_select_policies d uid =
     [users_can_view_their_own_applications uid,
      employers_can_view_applications_for_their_jobs d uid]"

definition job_applications_insert_check_policies :: "uuid option \<Rightarrow> (job_applications_row \<Rightarrow> bool) list" where
  "job_applications_insert_check_policies uid = [users_can_create_their_own_applications uid]"

definition job_applications_update_policies :: "db \<Rightarrow> uuid option \<Rightarrow> (job_applications_row \<Rightarrow> bool) list" where
  "job_applications_update_policies d uid = [employers_can_update_applications_for_their_jobs d uid]"

definition jobs_select_policies :: "(jobs_row \<Rightarrow> bool) list" where
  "jobs_select_policies = [anyone_can_view_active_jobs]"

definition user_roles_select_policies :: "uuid option \<Rightarrow> (user_roles_row \<Rightarrow> bool) list" where
  "user_roles_select_policies uid = [users_can_view_their_own_role uid]"

definition user_roles_insert_check_policies :: "uuid option \<Rightarrow> (user_roles_row \<Rightarrow> bool) list" where
  "user_roles_insert_check_policies uid = [users_can_insert_their_own_role uid]"

definition user_roles_update_policies :: "(user_roles_row \<Rightarrow> bool) list" where
  "user_roles_update_policies = []"

definition user_roles_delete_policies :: "(user_roles_row \<Rightarrow> bool) list" where
  "user_roles_delete_policies = []"

section \<open>Table writes through the data API\<close>

text \<open>
  The errors the database reports, with the \<open>code\<close> field the clients compare:
  a violated \<open>UNIQUE\<close> constraint, a violated \<open>REFERENCES\<close> constraint, and a new row
  rejected by a \<open>WITH CHECK\<close> policy.
\<close>

datatype pg_error = unique_violation | foreign_key_violation | insufficient_privilege

fun code :: "pg_error \<Rightarrow> string" where
  "code unique_violation = ''23505''"
| "code foreign_key_violation = ''23503''"
| "code insufficient_privilege = ''42501''"

text \<open>\<open>DEFAULT gen_random_uuid()\<close>: an identifier not yet in the column.\<close>

definition gen_random_uuid :: "uuid list \<Rightarrow> uuid" where
  "gen_random_uuid used = Suc (fold max used 0)"

text \<open>
  The object a client passes to \<open>insert\<close>. A key that is absent takes the column's
  \<open>DEFAULT\<close>; where the column has none that is \<open>NULL\<close>, so only \<open>status\<close>
  (\<open>TEXT DEFAULT 'pending'\<close>) needs the distinction.
\<close>

datatype 'a column = DEFAULT | VALUE 'a

record job_applications_insert =
  i_job_id :: uuid
  i_user_id :: uuid
  i_status :: "string option column"
  i_applicant_name :: "string option"
  i_applicant_email :: "string option"
  i_age :: "int option"
  i_experience_years :: "int option"
  i_resume_url :: "string option"

definition new_job_application :: "db \<Rightarrow> job_applications_insert \<Rightarrow> job_applications_row" where
  "new_job_application d p =
     \<lparr>a_id = gen_random_uuid (map a_id (job_applications d)),
      a_job_id = i_job_id p,
      a_user_id = i_user_id p,
      a_status = (case i_status p of DEFAULT \<Rightarrow> Some ''pending'' | VALUE v \<Rightarrow> v),
      a_applicant_name = i_applicant_name p,
      a_applicant_email = i_applicant_email p,
      a_age = i_age p,
      a_experience_years = i_experience_years p,
      a_resume_url = i_resume_url p\<rparr>"

text \<open>
  \<open>supabase.from('job_applications').insert(p)\<close> by caller \<open>uid\<close>: the new row must pass
  the \<open>INSERT\<close> policy's \<open>WITH CHECK\<close>, then \<open>UNIQUE (job_id, user_id)\<close>, then
  \<open>job_id REFERENCES jobs(id)\<close>. (\<open>user_id REFERENCES auth.users\<close> holds once the policy
  has passed, \<open>auth.uid()\<close> being an existing user.)
\<close>

definition insert_job_application ::
  "db \<Rightarrow> uuid option \<Rightarrow> job_applications_insert \<Rightarrow> pg_error + db" where
  "insert_job_application d uid p =
     (let row = new_job_application d p in
      if \<not> permissive (job_applications_insert_check_policies uid) row then Inl insufficient_privilege
      else if list_ex (\<lambda>r. a_job_id r = a_job_id row \<and> a_user_id r = a_user_id row)
                (job_applications d) then Inl unique_violation
      else if \<not> list_ex (\<lambda>j. j_id j = a_job_id row) (jobs d) then Inl foreign_key_violation
      else Inr (d\<lparr>job_applications := job_applications d @ [row]\<rparr>))"

text \<open>
  \<open>supabase.from('job_applications').update({ status }).eq('id', applicationId)\<close> by
  caller \<open>uid\<close>. The command touches the rows that match the filter and that the caller
  may both read (\<open>SELECT\<close> policies, the filter reading a column) and update (\<open>USING\<close> of
  the \<open>UPDATE\<close> policy); a row that fails these is skipped silently, and a command that
  touches no row is not an error. Each rewritten row must pass the \<open>WITH CHECK\<close> of
  the \<open>UPDATE\<close> policy and, the command reading the table, the \<open>SELECT\<close> policies;
  otherwise the command fails.
\<close>

definition update_target :: "db \<Rightarrow> uuid option \<Rightarrow> uuid \<Rightarrow> job_applications_row \<Rightarrow> bool" where
  "update_target d uid applicationId row =
     (a_id row = applicationId \<and> permissive (job_applications_select_policies d uid) row
        \<and> permissive (job_applications_update_policies d uid) row)"

definition update_job_application_status ::
  "db \<Rightarrow> uuid option \<Rightarrow> uuid \<Rightarrow> string \<Rightarrow> pg_error + db" where
  "update_job_application_status d uid applicationId status =
     (if list_ex (\<lambda>r. update_target d uid applicationId r
                    \<and> \<not> (permissive (job_applications_update_policies d uid)
                             (r\<lparr>a_status := Some status\<rparr>)
                           \<and> permissive (job_applications_select_policies d uid)
                               (r\<lparr>a_status := Some status\<rparr>)))
           (job_applications d)
      then Inl insufficient_privilege
      else Inr (d\<lparr>job_applications :=
                   map (\<lambda>r. if update_target d uid applicationId r
                             then r\<lparr>a_status := Some status\<rparr> else r)
                       (job_applications d)\<rparr>))"

text \<open>
  The same command issued with \<open>SUPABASE_SERVICE_ROLE_KEY\<close>: the service role bypasses
  row-level security, so every row matching the filter is rewritten.
\<close>

definition service_role_update_status :: "db \<Rightarrow> uuid \<Rightarrow> string \<Rightarrow> pg_error + db" where
  "service_role_update_status d applicationId status =
     Inr (d\<lparr>job_applications :=
              map (\<lambda>r. if a_id r = applicationId then r\<lparr>a_status := Some status\<rparr> else r)
                  (job_applications d)\<rparr>)"

section \<open>Applying for a job (\<open>JobSeekerDashboard.tsx\<close>, \<open>JobApplicationForm.tsx\<close>)\<close>

text \<open>The toasts the pages raise, by title.\<close>

datatype toast =
    Already_Applied | Error_toast | Application_Submitted | Status_Updated
  | Email_Sent | Email_Failed | Failed_to_Send

text \<open>
  The browser client carries the session of the signed-in \<open>user\<close>, so its requests run
  with \<open>auth.uid() = user.id\<close>.

  \<open>handleApply(jobId)\<close> inserts \<open>{ job_id: jobId, user_id: user.id }\<close>; the state it
  changes is the database and the set \<open>appliedJobs\<close>.
\<close>

definition handleApply :: "db \<Rightarrow> uuid option \<Rightarrow> uuid set \<Rightarrow> uuid \<Rightarrow> db \<times> uuid set \<times> toast option" where
  "handleApply d user appliedJobs jobId =
     (case user of
        None \<Rightarrow> (d, appliedJobs, None)
      | Some u \<Rightarrow>
         (case insert_job_application d (Some u)
                 \<lparr>i_job_id = jobId, i_user_id = u, i_status = DEFAULT,
                  i_applicant_name = None, i_applicant_email = None, i_age = None,
                  i_experience_years = None, i_resume_url = None\<rparr> of
            Inl error \<Rightarrow>
              if code error = ''23505'' then (d, appliedJobs, Some Already_Applied)
              else (d, appliedJobs, Some Error_toast)
          | Inr d' \<Rightarrow> (d', insert jobId appliedJobs, Some Application_Submitted)))"

text \<open>
  \<open>handleSubmit\<close> of the application form. \<open>resumeFile\<close> is the chosen file, if any;
  \<open>upload\<close> is what the storage upload gave: an error, or the public URL of the stored
  file. \<open>age\<close> and \<open>experienceYears\<close> are the values of \<open>parseInt\<close> on the two text
  fields (\<open>None\<close> for \<open>NaN\<close>, which is sent as \<open>null\<close>).
\<close>

record application_form =
  f_fullName :: string
  f_email :: string
  f_age :: "int option"
  f_experienceYears :: "int option"

definition handleSubmit ::
  "db \<Rightarrow> uuid option \<Rightarrow> string option \<Rightarrow> string + string \<Rightarrow> application_form \<Rightarrow> uuid
     \<Rightarrow> db \<times> toast option" where
  "handleSubmit d user resumeFile upload form jobId =
     (case user of
        None \<Rightarrow> (d, None)
      | Some u \<Rightarrow>
         (case resumeFile of
            None \<Rightarrow> (d, None)
          | Some file \<Rightarrow>
             (case upload of
                Inl uploadError \<Rightarrow> (d, Some Error_toast)
              | Inr publicUrl \<Rightarrow>
                 (case insert_job_application d (Some u)
                         \<lparr>i_job_id = jobId, i_user_id = u, i_status = DEFAULT,
                          i_applicant_name = Some (f_fullName form),
                          i_applicant_email = Some (f_email form), i_age = f_age form,
                          i_experience_years = f_experienceYears form,
                          i_resume_url = Some publicUrl\<rparr> of
                    Inl appError \<Rightarrow>
                      if code appError = ''23505'' then (d, Some Already_Applied)
                      else (d, Some Error_toast)
                  | Inr d' \<Rightarrow> (d', Some Application_Submitted)))))"

section \<open>Browsing jobs (\<open>JobSeekerDashboard.tsx\<close>, \<open>ViewApplicants\<close>)\<close>

text \<open>
  A \<open>select\<close> on \<open>jobs\<close> returns the rows that pass the table's \<open>SELECT\<close> policies and
  the request's filters. (\<open>order\<close> is not modelled: the rows keep the table's order.)
\<close>

definition select_jobs :: "db \<Rightarrow> uuid option \<Rightarrow> (jobs_row \<Rightarrow> bool) \<Rightarrow> jobs_row list" where
  "select_jobs d uid flt = filter (\<lambda>j. permissive jobs_select_policies j \<and> flt j) (jobs d)"

text \<open>\<open>fetchJobs(companyId)\<close>: \<open>.eq('company_id', companyId).eq('is_active', true)\<close>.\<close>

definition fetchJobs :: "db \<Rightarrow> uuid option \<Rightarrow> uuid \<Rightarrow> jobs_row list" where
  "fetchJobs d user companyId =
     select_jobs d user (\<lambda>j. j_company_id j = companyId \<and> j_is_active j = Some True)"

text \<open>
  \<open>fetchEmployerJobs()\<close>: \<open>.eq('user_id', user.id)\<close>; without a user the page keeps the
  list it had. \<open>fetchData\<close> of \<open>EmployerDashboard.tsx\<close> issues the same request.
\<close>

definition fetchEmployerJobs :: "db \<Rightarrow> uuid option \<Rightarrow> jobs_row list \<Rightarrow> jobs_row list" where
  "fetchEmployerJobs d user shown =
     (case user of
        None \<Rightarrow> shown
      | Some u \<Rightarrow> select_jobs d (Some u) (\<lambda>j. j_user_id j = Some u))"

section \<open>Managing applicants (\<open>ViewApplicants\<close>)\<close>

text \<open>
  The page keeps the fetched application rows in \<open>applicants\<close>.
  \<open>updateApplicationStatus(applicationId, status)\<close> issues the update with the user's
  session; on an error it raises the error toast, otherwise it rewrites the status in
  \<open>applicants\<close> and raises \<open>Status Updated\<close>.
\<close>

definition updateApplicationStatus ::
  "db \<Rightarrow> uuid option \<Rightarrow> job_applications_row list \<Rightarrow> uuid \<Rightarrow> string
     \<Rightarrow> db \<times> job_applications_row list \<times> toast" where
  "updateApplicationStatus d user applicants applicationId status =
     (case update_job_application_status d user applicationId status of
        Inl error \<Rightarrow> (d, applicants, Error_toast)
      | Inr d' \<Rightarrow>
          (d',
           map (\<lambda>app. if a_id app = applicationId then app\<lparr>a_status := Some status\<rparr> else app)
             applicants,
           Status_Updated))"

text \<open>
  \<open>filteredApplicants\<close>. \<open>minExp\<close> and \<open>maxExp\<close> are the values of
  \<open>minExperience ? parseInt(minExperience) : 0\<close> and
  \<open>maxExperience ? parseInt(maxExperience) : Infinity\<close>; a comparison with \<open>NaN\<close> is
  false.
\<close>

datatype number = NaN | Num int | Infinity

fun less_number :: "int \<Rightarrow> number \<Rightarrow> bool" where
  "less_number e NaN = False"
| "less_number e (Num n) = (e < n)"
| "less_number e Infinity = True"

fun greater_number :: "int \<Rightarrow> number \<Rightarrow> bool" where
  "greater_number e NaN = False"
| "greater_number e (Num n) = (e > n)"
| "greater_number e Infinity = False"

text \<open>\<open>x || fallback\<close> on a nullable string: \<open>null\<close> and the empty string are falsy.\<close>

fun or_else :: "string option \<Rightarrow> string \<Rightarrow> string" where
  "or_else None fallback = fallback"
| "or_else (Some x) fallback = (if x = [] then fallback else x)"

definition filteredApplicants ::
  "job_applications_row list \<Rightarrow> number \<Rightarrow> number \<Rightarrow> string \<Rightarrow> job_applications_row list" where
  "filteredApplicants applicants minExp maxExp statusFilter =
     filter (\<lambda>applicant.
        let exp = (case a_experience_years applicant of None \<Rightarrow> 0 | Some e \<Rightarrow> e) in
        if less_number exp minExp \<or> greater_number exp maxExp then False
        else if statusFilter \<noteq> ''all''
                \<and> or_else (a_status applicant) ''pending'' \<noteq> statusFilter then False
        else True) applicants"

definition shortlistedApplicants :: "job_applications_row list \<Rightarrow> job_applications_row list" where
  "shortlistedApplicants filtered = filter (\<lambda>a. a_status a = Some ''shortlisted'') filtered"

definition applicantsToSend :: "job_applications_row list \<Rightarrow> job_applications_row list" where
  "applicantsToSend filtered =
     (if length (shortlistedApplicants filtered) > 0 then shortlistedApplicants filtered
      else filtered)"

section \<open>The e-mail functions (\<open>supabase/functions\<close>)\<close>

text \<open>
  An e-mail handed to the provider. Of the HTML body only the applicants whose table
  rows it contains are kept (\<open>m_listed\<close>, empty for the mail to an applicant).
\<close>

record boss_applicant =
  b_name :: string
  b_age :: "int option"
  b_experienceYears :: "int option"
  b_resumeUrl :: "string option"

record email =
  m_from :: string
  m_to :: "string list"
  m_subject :: string
  m_listed :: "boss_applicant list"

text \<open>
  \<open>await resend.emails.send(...)\<close> either throws (the handler's \<open>catch\<close> takes over with
  the error's message) or yields a response, which the handlers pass on without looking
  into it. The provider is a parameter of the model.
\<close>

datatype 'r send_result = Throws string | Returns 'r

text \<open>
  The response of \<open>resend@2.0.0\<close>, the version the functions import, is the object
  \<open>{ data, error }\<close>: \<open>data\<close> holds the id of the accepted mail and \<open>error\<close> is
  \<open>null\<close>, or, when the provider rejects the mail (no or an invalid recipient, a sender
  it does not allow, a refused key), \<open>data\<close> is \<open>null\<close> and \<open>error\<close> names the rejection.
  A rejection is returned, not thrown.
\<close>

record CreateEmailResponse =
  c_data :: "string option"
  c_error :: "string option"

text \<open>What a handler does to the outside, in order.\<close>

datatype event = Email_send email | Status_update uuid string

datatype http_method = OPTIONS | POST

text \<open>
  A response body is empty, \<open>{ success: true, emailResponse }\<close>, or
  \<open>{ error: error.message }\<close> for the value caught: an \<open>Error\<close> with its message, or the
  error of the database request.
\<close>

datatype caught = Error_message string | Database_error pg_error

datatype 'r body = No_body | Success 'r | Failure caught

record 'r response =
  status_code :: nat
  body :: "'r body"

record EmailRequest =
  e_authorization :: "uuid option"
  e_applicationId :: uuid
  e_applicantName :: string
  e_applicantEmail :: string
  e_jobTitle :: string
  e_status :: string
  e_companyName :: string

text \<open>\<open>getEmailContent\<close>, the subject line.\<close>

definition getEmailContent_subject :: "string \<Rightarrow> string \<Rightarrow> string" where
  "getEmailContent_subject status jobTitle =
     (if status = ''shortlisted'' then ''Congratulations! You've been shortlisted for '' @ jobTitle
      else if status = ''rejected'' then ''Application Update for '' @ jobTitle
      else if status = ''selected'' then ''Congratulations! You've been selected for '' @ jobTitle
      else ''Application Update for '' @ jobTitle)"

definition applicant_email :: "EmailRequest \<Rightarrow> email" where
  "applicant_email req =
     \<lparr>m_from = e_companyName req @ '' <onboarding@resend.dev>'',
      m_to = [e_applicantEmail req],
      m_subject = getEmailContent_subject (e_status req) (e_jobTitle req),
      m_listed = []\<rparr>"

text \<open>
  The handler of \<open>send-applicant-email\<close>. \<open>e_authorization\<close> is the caller named by the
  request's \<open>Authorization\<close> header; the handler does not read it.
\<close>

definition send_applicant_email ::
  "(email \<Rightarrow> 'r send_result) \<Rightarrow> db \<Rightarrow> http_method \<Rightarrow> EmailRequest
     \<Rightarrow> 'r response \<times> db \<times> event list" where
  "send_applicant_email resend d method req =
     (if method = OPTIONS then (\<lparr>status_code = 200, body = No_body\<rparr>, d, [])
      else
        (case resend (applicant_email req) of
           Throws msg \<Rightarrow>
             (\<lparr>status_code = 500, body = Failure (Error_message msg)\<rparr>, d,
              [Email_send (applicant_email req)])
         | Returns emailResponse \<Rightarrow>
             (case service_role_update_status d (e_applicationId req) (e_status req) of
                Inl updateError \<Rightarrow>
                  (\<lparr>status_code = 500, body = Failure (Database_error updateError)\<rparr>, d,
                   [Email_send (applicant_email req),
                    Status_update (e_applicationId req) (e_status req)])
              | Inr d' \<Rightarrow>
                  (\<lparr>status_code = 200, body = Success emailResponse\<rparr>, d',
                   [Email_send (applicant_email req),
                    Status_update (e_applicationId req) (e_status req)]))))"

record SendToBossRequest =
  s_bossEmail :: string
  s_jobTitle :: string
  s_companyName :: string
  s_optionalMessage :: "string option"
  s_shortlistedApplicants :: "boss_applicant list"

definition boss_email :: "SendToBossRequest \<Rightarrow> email" where
  "boss_email req =
     \<lparr>m_from = s_companyName req @ '' Hiring <onboarding@resend.dev>'',
      m_to = [s_bossEmail req],
      m_subject = ''Shortlisted Candidates for '' @ s_jobTitle req,
      m_listed = s_shortlistedApplicants req\<rparr>"

text \<open>The handler of \<open>send-to-boss\<close>.\<close>

definition send_to_boss ::
  "(email \<Rightarrow> 'r send_result) \<Rightarrow> http_method \<Rightarrow> SendToBossRequest \<Rightarrow> 'r response \<times> event list" where
  "send_to_boss resend method req =
     (if method = OPTIONS then (\<lparr>status_code = 200, body = No_body\<rparr>, [])
      else if s_bossEmail req = [] \<or> s_jobTitle req = [] \<or> length (s_shortlistedApplicants req) = 0
      then (\<lparr>status_code = 500,
             body = Failure (Error_message
               ''Missing required fields: bossEmail, jobTitle, or shortlistedApplicants'')\<rparr>, [])
      else
        (case resend (boss_email req) of
           Throws msg \<Rightarrow>
             (\<lparr>status_code = 500, body = Failure (Error_message msg)\<rparr>, [Email_send (boss_email req)])
         | Returns emailResponse \<Rightarrow>
             (\<lparr>status_code = 200, body = Success emailResponse\<rparr>,
              [Email_send (boss_email req)])))"

section \<open>Notifying from the page (\<open>ViewApplicants\<close>)\<close>

text \<open>The job chosen in the page: its title and the name of its company, if any.\<close>

record Job =
  v_id :: uuid
  v_title :: string
  v_company :: "string option"

text \<open>
  \<open>sendEmailAndUpdateStatus(applicant, status)\<close>. \<open>supabase.functions.invoke\<close> posts the
  body with the user's session and reports an error when the response status is not 2xx.
\<close>

definition sendEmailAndUpdateStatus ::
  "(email \<Rightarrow> 'r send_result) \<Rightarrow> db \<Rightarrow> uuid option \<Rightarrow> job_applications_row list \<Rightarrow> Job option
     \<Rightarrow> job_applications_row \<Rightarrow> string
     \<Rightarrow> db \<times> job_applications_row list \<times> toast \<times> event list" where
  "sendEmailAndUpdateStatus resend d user applicants selectedJob applicant status =
     (if or_else (a_applicant_email applicant) [] = [] then (d, applicants, Error_toast, [])
      else
        (case selectedJob of
           None \<Rightarrow> (d, applicants, Error_toast, [])
         | Some job \<Rightarrow>
            (case send_applicant_email resend d POST
                    \<lparr>e_authorization = user,
                     e_applicationId = a_id applicant,
                     e_applicantName = or_else (a_applicant_name applicant) ''Applicant'',
                     e_applicantEmail = or_else (a_applicant_email applicant) [],
                     e_jobTitle = v_title job,
                     e_status = status,
                     e_companyName = or_else (v_company job) ''Our Company''\<rparr> of
               (resp, d', events) \<Rightarrow>
                 if 200 \<le> status_code resp \<and> status_code resp < 300
                 then (d',
                       map (\<lambda>app. if a_id app = a_id applicant
                                   then app\<lparr>a_status := Some status\<rparr> else app) applicants,
                       Email_Sent, events)
                 else (d', applicants, Email_Failed, events))))"

text \<open>
  \<open>handleSendToBoss()\<close>. \<open>sign\<close> stands for the block that turns a stored
  \<open>resume_url\<close> into the link put in the mail (a signed URL of 7 days for the path
  after \<open>/resumes/\<close>, or the URL itself where storage gives none). \<open>trim\<close> stands for
  the language's \<open>String.prototype.trim\<close>; like the provider it is a parameter, and
  nothing below depends on which characters it strips.
\<close>

definition applicantsWithSignedUrls ::
  "(string \<Rightarrow> string) \<Rightarrow> job_applications_row list \<Rightarrow> boss_applicant list" where
  "applicantsWithSignedUrls sign toSend =
     map (\<lambda>applicant.
        \<lparr>b_name = or_else (a_applicant_name applicant) ''Unknown'',
         b_age = a_age applicant,
         b_experienceYears = a_experience_years applicant,
         b_resumeUrl = (case a_resume_url applicant of
                          None \<Rightarrow> None
                        | Some url \<Rightarrow> if url = [] then None else Some (sign url))\<rparr>) toSend"

definition handleSendToBoss ::
  "(email \<Rightarrow> 'r send_result) \<Rightarrow> (string \<Rightarrow> string) \<Rightarrow> (string \<Rightarrow> string) \<Rightarrow> string \<Rightarrow> string
     \<Rightarrow> Job option \<Rightarrow> job_applications_row list \<Rightarrow> toast \<times> event list" where
  "handleSendToBoss resend sign trim bossEmail optionalMessage selectedJob filtered =
     (if trim bossEmail = [] then (Error_toast, [])
      else
        (case selectedJob of
           None \<Rightarrow> (Error_toast, [])
         | Some job \<Rightarrow>
            if length (applicantsToSend filtered) = 0 then (Error_toast, [])
            else
              (case send_to_boss resend POST
                      \<lparr>s_bossEmail = trim bossEmail,
                       s_jobTitle = v_title job,
                       s_companyName = or_else (v_company job) ''Our Company'',
                       s_optionalMessage =
                         (if trim optionalMessage = [] then None
                          else Some (trim optionalMessage)),
                       s_shortlistedApplicants =
                         applicantsWithSignedUrls sign (applicantsToSend filtered)\<rparr> of
                 (resp, events) \<Rightarrow>
                   if 200 \<le> status_code resp \<and> status_code resp < 300
                   then (Email_Sent, events)
                   else (Failed_to_Send, events))))"

section \<open>Roles (\<open>user_roles\<close>)\<close>

text \<open>
  \<open>insert\<close> into \<open>user_roles\<close> by caller \<open>uid\<close>: \<open>WITH CHECK\<close> of the \<open>INSERT\<close> policy,
  then \<open>UNIQUE (user_id)\<close>.
\<close>

definition insert_user_role :: "db \<Rightarrow> uuid option \<Rightarrow> uuid \<Rightarrow> user_role \<Rightarrow> pg_error + db" where
  "insert_user_role d uid user_id role =
     (let row = \<lparr>r_id = gen_random_uuid (map r_id (user_roles d)),
                 r_user_id = user_id, r_role = role\<rparr> in
      if \<not> permissive (user_roles_insert_check_policies uid) row then Inl insufficient_privilege
      else if list_ex (\<lambda>r. r_user_id r = user_id) (user_roles d) then Inl unique_violation
      else Inr (d\<lparr>user_roles := user_roles d @ [row]\<rparr>))"

text \<open>
  \<open>update\<close> and \<open>delete\<close> on \<open>user_roles\<close> with a filter \<open>flt\<close>. The table has no
  \<open>UPDATE\<close> and no \<open>DELETE\<close> policy. An \<open>UPDATE\<close> policy without \<open>WITH CHECK\<close> checks
  the new row against its \<open>USING\<close>; rewritten rows must keep \<open>UNIQUE (user_id)\<close>.
\<close>

definition user_roles_target ::
  "uuid option \<Rightarrow> (user_roles_row \<Rightarrow> bool) list \<Rightarrow> (user_roles_row \<Rightarrow> bool) \<Rightarrow> user_roles_row \<Rightarrow> bool" where
  "user_roles_target uid policies flt row =
     (flt row \<and> permissive (user_roles_select_policies uid) row \<and> permissive policies row)"

definition update_user_roles ::
  "db \<Rightarrow> uuid option \<Rightarrow> (user_roles_row \<Rightarrow> bool) \<Rightarrow> (user_roles_row \<Rightarrow> user_roles_row)
     \<Rightarrow> pg_error + db" where
  "update_user_roles d uid flt set_columns =
     (let target = user_roles_target uid user_roles_update_policies flt;
          rows = map (\<lambda>r. if target r then set_columns r else r) (user_roles d) in
      if list_ex (\<lambda>r. target r \<and> \<not> permissive user_roles_update_policies (set_columns r))
           (user_roles d) then Inl insufficient_privilege
      else if list_ex target (user_roles d) \<and> \<not> distinct (map r_user_id rows)
      then Inl unique_violation
      else Inr (d\<lparr>user_roles := rows\<rparr>))"

definition delete_user_roles :: "db \<Rightarrow> uuid option \<Rightarrow> (user_roles_row \<Rightarrow> bool) \<Rightarrow> db" where
  "delete_user_roles d uid flt =
     d\<lparr>user_roles :=
         filter (\<lambda>r. \<not> user_roles_target uid user_roles_delete_policies flt r) (user_roles d)\<rparr>"

section \<open>The states of the database\<close>

text \<open>The application rows of one (job, applicant) pair.\<close>

definition applications_for :: "db \<Rightarrow> uuid \<Rightarrow> uuid \<Rightarrow> job_applications_row list" where
  "applications_for d jid uid =
     filter (\<lambda>r. a_job_id r = jid \<and> a_user_id r = uid) (job_applications d)"

text \<open>
  The migrations leave \<open>job_applications\<close> empty. From there the table changes by the
  three writes above; deleting a job removes its applications
  (\<open>ON DELETE CASCADE\<close>); every other write to \<open>jobs\<close> or \<open>user_roles\<close>, whatever it
  stores, leaves \<open>job_applications\<close> as it is.
\<close>

inductive reachable :: "db \<Rightarrow> bool" where
  migrated: "job_applications d = [] \<Longrightarrow> reachable d"
| jobs_written: "reachable d \<Longrightarrow> reachable (d\<lparr>jobs := js\<rparr>)"
| user_roles_written: "reachable d \<Longrightarrow> reachable (d\<lparr>user_roles := rs\<rparr>)"
| job_deleted:
    "reachable d \<Longrightarrow>
     reachable (d\<lparr>jobs := filter (\<lambda>j. j_id j \<noteq> jid) (jobs d),
                  job_applications := filter (\<lambda>r. a_job_id r \<noteq> jid) (job_applications d)\<rparr>)"
| application_inserted:
    "reachable d \<Longrightarrow> insert_job_application d uid p = Inr d' \<Longrightarrow> reachable d'"
| status_updated:
    "reachable d \<Longrightarrow> update_job_application_status d uid applicationId status = Inr d'
       \<Longrightarrow> reachable d'"
| status_updated_by_service_role:
    "reachable d \<Longrightarrow> service_role_update_status d applicationId status = Inr d'
       \<Longrightarrow> reachable d'"

section \<open>Example data\<close>

text \<open>
  Employer 10 owns job 1, employer 11 owns no job, job seekers 20 and 21; job 2 is
  owned by employer 10 and inactive.
\<close>

definition job1 :: jobs_row where
  "job1 = \<lparr>j_id = 1, j_title = ''Data Analyst'', j_company_id = 5, j_is_active = Some True,
           j_user_id = Some 10, j_minimum_experience = Some 0\<rparr>"

definition job2 :: jobs_row where
  "job2 = \<lparr>j_id = 2, j_title = ''Course Developer'', j_company_id = 5,
           j_is_active = Some False, j_user_id = Some 10, j_minimum_experience = Some 0\<rparr>"

definition db0 :: db where
  "db0 = \<lparr>user_roles = [], jobs = [job1, job2], job_applications = []\<rparr>"

definition apply20 :: job_applications_insert where
  "apply20 = \<lparr>i_job_id = 1, i_user_id = 20, i_status = DEFAULT, i_applicant_name = None,
              i_applicant_email = None, i_age = None, i_experience_years = None,
              i_resume_url = None\<rparr>"

definition app20 :: "string option \<Rightarrow> job_applications_row" where
  "app20 s = \<lparr>a_id = 1, a_job_id = 1, a_user_id = 20, a_status = s, a_applicant_name = None,
             a_applicant_email = None, a_age = None, a_experience_years = None,
             a_resume_url = None\<rparr>"

definition db1 :: "string option \<Rightarrow> db" where
  "db1 s = \<lparr>user_roles = [], jobs = [job1, job2], job_applications = [app20 s]\<rparr>"

definition accepting :: "email \<Rightarrow> unit send_result" where
  "accepting m = Returns ()"

definition rejecting :: "email \<Rightarrow> CreateEmailResponse send_result" where
  "rejecting m = Returns \<lparr>c_data = None, c_error = Some ''validation_error''\<rparr>"

definition failing :: "email \<Rightarrow> unit send_result" where
  "failing m = Throws ''provider unavailable''"

definition notify20 :: "uuid option \<Rightarrow> string \<Rightarrow> EmailRequest" where
  "notify20 caller s =
     \<lparr>e_authorization = caller, e_applicationId = 1, e_applicantName = ''Ann'',
      e_applicantEmail = ''ann@example.org'', e_jobTitle = ''Data Analyst'', e_status = s,
      e_companyName = ''DataFlow Systems''\<rparr>"

definition form20 :: application_form where
  "form20 = \<lparr>f_fullName = ''Ann'', f_email = ''ann@example.org'', f_age = Some 30,
             f_experienceYears = Some 4\<rparr>"

definition db1_form :: db where
  "db1_form = \<lparr>user_roles = [], jobs = [job1, job2], job_applications =
     [\<lparr>a_id = 1, a_job_id = 1, a_user_id = 20, a_status = Some ''pending'',
       a_applicant_name = Some ''Ann'', a_applicant_email = Some ''ann@example.org'',
       a_age = Some 30, a_experience_years = Some 4, a_resume_url = Some ''r.pdf''\<rparr>]\<rparr>"

definition job_chosen :: Job where
  "job_chosen = \<lparr>v_id = 1, v_title = ''Data Analyst'', v_company = Some ''DataFlow Systems''\<rparr>"

definition app20_mail :: "string option \<Rightarrow> job_applications_row" where
  "app20_mail s = (app20 s)\<lparr>a_applicant_name := Some ''Ann'',
      a_applicant_email := Some ''ann@example.org''\<rparr>"

definition db1_mail :: "string option \<Rightarrow> db" where
  "db1_mail s = \<lparr>user_roles = [], jobs = [job1, job2], job_applications = [app20_mail s]\<rparr>"

definition db2 :: db where
  "db2 = \<lparr>user_roles = [\<lparr>r_id = 1, r_user_id = 20, r_role = job_seeker\<rparr>], jobs = [job1, job2],
          job_applications = []\<rparr>"

definition boss_request :: "string \<Rightarrow> boss_applicant list \<Rightarrow> SendToBossRequest" where
  "boss_request to listed =
     \<lparr>s_bossEmail = to, s_jobTitle = ''Data Analyst'', s_companyName = ''DataFlow Systems'',
      s_optionalMessage = None, s_shortlistedApplicants = listed\<rparr>"

definition ann :: boss_applicant where
  "ann = \<lparr>b_name = ''Ann'', b_age = Some 30, b_experienceYears = Some 4, b_resumeUrl = None\<rparr>"

definition applicant_row :: "uuid \<Rightarrow> string \<Rightarrow> int \<Rightarrow> string \<Rightarrow> job_applications_row" where
  "applicant_row i n e s =
     \<lparr>a_id = i, a_job_id = 1, a_user_id = 20 + i, a_status = Some s,
      a_applicant_name = Some n, a_applicant_email = None, a_age = None,
      a_experience_years = Some e, a_resume_url = None\<rparr>"

definition db2_more :: db where
  "db2_more = db2\<lparr>user_roles := user_roles db2 @ [\<lparr>r_id = 2, r_user_id = 10, r_role = employer\<rparr>]\<rparr>"

definition three :: "job_applications_row list" where
  "three = [applicant_row 1 ''Ann'' 9 ''shortlisted'', applicant_row 2 ''Bob'' 6 ''reviewed'',
            applicant_row 3 ''Cy'' 1 ''pending'']"

text \<open>
  The two recipients typed in the examples are ASCII strings; on an ASCII string
  \<open>String.prototype.trim\<close> strips exactly the characters U+0009 to U+000D and U+0020
  from both ends.
\<close>

definition ascii_white_space :: "char \<Rightarrow> bool" where
  "ascii_white_space c =
     (c \<in> set [CHR '' '', CHR 0x09, CHR 0x0A, CHR 0x0B, CHR 0x0C, CHR 0x0D])"

definition trim_ascii :: "string \<Rightarrow> string" where
  "trim_ascii s = rev (dropWhile ascii_white_space (rev (dropWhile ascii_white_space s)))"

section \<open>Facts about the table writes\<close>

lemma length_filter_filter_le:
  "length (filter P (filter Q xs)) \<le> length (filter P xs)"
  by (induction xs) auto

lemma filter_map_unchanged:
  "(\<And>r. r \<in> set xs \<Longrightarrow> P (g r) = P r) \<Longrightarrow> (\<And>r. r \<in> set xs \<Longrightarrow> P r \<Longrightarrow> g r = r)
     \<Longrightarrow> filter P (map g xs) = filter P xs"
  by (induction xs) auto

lemma insert_job_application_Inr:
  "insert_job_application d uid p = Inr d' \<Longrightarrow>
     d' = d\<lparr>job_applications := job_applications d @ [new_job_application d p]\<rparr>
     \<and> \<not> list_ex (\<lambda>r. a_job_id r = i_job_id p \<and> a_user_id r = i_user_id p) (job_applications d)"
  by (auto simp: insert_job_application_def Let_def new_job_application_def split: if_splits)

lemma insert_job_application_again:
  assumes "list_ex (\<lambda>r. a_job_id r = i_job_id q \<and> a_user_id r = i_user_id q) (job_applications d)"
  shows "insert_job_application d (Some (i_user_id q)) q = Inl unique_violation"
  using assms
  by (simp add: insert_job_application_def Let_def new_job_application_def permissive_def
        job_applications_insert_check_policies_def users_can_create_their_own_applications_def)

lemma permissive_update_status [simp]:
  "permissive (job_applications_update_policies d uid) (r\<lparr>a_status := s\<rparr>)
     = permissive (job_applications_update_policies d uid) r"
  by (simp add: permissive_def job_applications_update_policies_def
        employers_can_update_applications_for_their_jobs_def)

lemma permissive_select_status [simp]:
  "permissive (job_applications_select_policies d uid) (r\<lparr>a_status := s\<rparr>)
     = permissive (job_applications_select_policies d uid) r"
  by (simp add: permissive_def job_applications_select_policies_def
        users_can_view_their_own_applications_def
        employers_can_view_applications_for_their_jobs_def)

lemma update_job_application_status_eq:
  "update_job_application_status d uid i s =
     Inr (d\<lparr>job_applications :=
            map (\<lambda>r. if update_target d uid i r then r\<lparr>a_status := Some s\<rparr> else r)
              (job_applications d)\<rparr>)"
  by (auto simp: update_job_application_status_def update_target_def list_ex_iff)

lemma update_target_not_owner:
  "\<not> is_job_owner d uid (a_job_id r) \<Longrightarrow> \<not> update_target d uid i r"
  by (simp add: update_target_def permissive_def job_applications_update_policies_def
        employers_can_update_applications_for_their_jobs_def)

lemma update_target_owner:
  "is_job_owner d uid (a_job_id r) \<Longrightarrow> update_target d uid i r = (a_id r = i)"
  by (simp add: update_target_def permissive_def job_applications_update_policies_def
        job_applications_select_policies_def
        employers_can_update_applications_for_their_jobs_def
        employers_can_view_applications_for_their_jobs_def)

lemma applications_for_le1:
  "reachable d \<Longrightarrow> length (applications_for d jid uid) \<le> 1"
proof (induction rule: reachable.induct)
  case (migrated d)
  then show ?case by (simp add: applications_for_def)
next
  case (jobs_written d js)
  then show ?case by (simp add: applications_for_def)
next
  case (user_roles_written d rs)
  then show ?case by (simp add: applications_for_def)
next
  case (job_deleted d j)
  have "length (filter (\<lambda>r. a_job_id r = jid \<and> a_user_id r = uid)
           (filter (\<lambda>r. a_job_id r \<noteq> j) (job_applications d)))
        \<le> length (filter (\<lambda>r. a_job_id r = jid \<and> a_user_id r = uid) (job_applications d))"
    by (rule length_filter_filter_le)
  with job_deleted show ?case by (simp add: applications_for_def)
next
  case (application_inserted d uid p d')
  then show ?case
    by (auto simp: applications_for_def insert_job_application_def Let_def list_ex_iff
          filter_empty_conv split: if_splits)
next
  case (status_updated d uid applicationId status d')
  then show ?case
    by (auto simp: applications_for_def update_job_application_status_def filter_map comp_def
           if_distrib[of a_job_id] if_distrib[of a_user_id] cong: if_cong split: if_splits)
next
  case (status_updated_by_service_role d applicationId status d')
  then show ?case
    by (auto simp: applications_for_def service_role_update_status_def filter_map comp_def
           if_distrib[of a_job_id] if_distrib[of a_user_id] cong: if_cong split: if_splits)
qed

lemma reachable_db0: "reachable db0"
  by (rule reachable.migrated) (simp add: db0_def)

lemma insert_db0: "insert_job_application db0 (Some 20) apply20 = Inr (db1 (Some ''pending''))"
  by (simp add: insert_job_application_def new_job_application_def db0_def db1_def apply20_def
      app20_def job1_def job2_def gen_random_uuid_def permissive_def
      job_applications_insert_check_policies_def users_can_create_their_own_applications_def)

section \<open>Authorization of status updates\<close>

text \<open>
  Claim C1, as the code has it. When user \<open>uid\<close> does not own job \<open>jid\<close>, a status
  update that \<open>uid\<close> issues through the table API (\<open>updateApplicationStatus\<close>) is not
  refused: it reports no error, the page raises \<open>Status Updated\<close>, and no application
  of job \<open>jid\<close> is changed. The applicant is such a user unless they own the job.
\<close>

theorem status_update_by_non_owner:
  assumes "\<not> is_job_owner d uid jid"
  shows "\<exists>d'. update_job_application_status d uid applicationId status = Inr d'
          \<and> filter (\<lambda>r. a_job_id r = jid) (job_applications d')
              = filter (\<lambda>r. a_job_id r = jid) (job_applications d)
          \<and> fst (updateApplicationStatus d uid applicants applicationId status) = d'
          \<and> snd (snd (updateApplicationStatus d uid applicants applicationId status))
              = Status_Updated"
proof -
  let ?g = "\<lambda>r. if update_target d uid applicationId r then r\<lparr>a_status := Some status\<rparr> else r"
  let ?d' = "d\<lparr>job_applications := map ?g (job_applications d)\<rparr>"
  have upd: "update_job_application_status d uid applicationId status = Inr ?d'"
    by (rule update_job_application_status_eq)
  have "filter (\<lambda>r. a_job_id r = jid) (map ?g (job_applications d))
          = filter (\<lambda>r. a_job_id r = jid) (job_applications d)"
    using assms by (intro filter_map_unchanged) (auto dest: update_target_not_owner)
  then show ?thesis
    using upd by (simp add: updateApplicationStatus_def)
qed

text \<open>On the example data: the applicant (user 20) tries to set the status of their own
  application to job 1.\<close>

theorem status_update_by_non_owner_witness:
  "\<not> is_job_owner (db1 (Some ''pending'')) (Some 20) 1
   \<and> update_job_application_status (db1 (Some ''pending'')) (Some 20) 1 ''selected''
       = Inr (db1 (Some ''pending''))
   \<and> filter (\<lambda>r. a_job_id r = 1) (job_applications (db1 (Some ''pending'')))
       = [app20 (Some ''pending'')]
   \<and> snd (snd (updateApplicationStatus (db1 (Some ''pending'')) (Some 20) [] 1 ''selected''))
       = Status_Updated"
proof -
  have no: "\<not> is_job_owner (db1 (Some ''pending'')) (Some 20) 1"
    by (simp add: is_job_owner_def db1_def job1_def job2_def)
  from status_update_by_non_owner[OF no, of 1 "''selected''" "[]"]
  obtain d' where d': "update_job_application_status (db1 (Some ''pending'')) (Some 20) 1 ''selected'' = Inr d'"
    and same: "filter (\<lambda>r. a_job_id r = 1) (job_applications d')
       = filter (\<lambda>r. a_job_id r = 1) (job_applications (db1 (Some ''pending'')))"
    and t: "snd (snd (updateApplicationStatus (db1 (Some ''pending'')) (Some 20) [] 1 ''selected''))
        = Status_Updated"
    by blast
  have "job_applications d' = filter (\<lambda>r. a_job_id r = 1) (job_applications d')"
    using d' by (auto simp: update_job_application_status_eq db1_def app20_def)
  with same have "job_applications d' = [app20 (Some ''pending'')]"
    by (simp add: db1_def app20_def)
  moreover have "jobs d' = jobs (db1 (Some ''pending''))" "user_roles d' = user_roles (db1 (Some ''pending''))"
    using d' by (auto simp: update_job_application_status_eq)
  ultimately have "d' = db1 (Some ''pending'')"
    by (simp add: db1_def)
  with no d' t show ?thesis by (simp add: db1_def app20_def)
qed

text \<open>
  The claim as stated fails on the example data. Employer 11 does not own job 1, yet
  the update of application 1 returns without an error; the applicant (user 20) gets
  \<open>Status Updated\<close> although the row keeps its status; and the e-mail function, called
  by employer 11, rewrites the status of application 1.
\<close>

theorem status_update_by_non_owner_counterexample:
  "\<not> is_job_owner (db1 (Some ''pending'')) (Some 11) 1
   \<and> update_job_application_status (db1 (Some ''pending'')) (Some 11) 1 ''selected''
       = Inr (db1 (Some ''pending''))
   \<and> updateApplicationStatus (db1 (Some ''pending'')) (Some 20) [app20 (Some ''pending'')] 1 ''selected''
       = (db1 (Some ''pending''), [app20 (Some ''selected'')], Status_Updated)
   \<and> send_applicant_email accepting (db1 (Some ''pending'')) POST (notify20 (Some 11) ''rejected'')
       = (\<lparr>status_code = 200, body = Success ()\<rparr>, db1 (Some ''rejected''),
          [Email_send (applicant_email (notify20 (Some 11) ''rejected'')), Status_update 1 ''rejected''])"
  by (simp add: update_job_application_status_eq update_target_def permissive_def
      job_applications_update_policies_def job_applications_select_policies_def
      employers_can_update_applications_for_their_jobs_def
      employers_can_view_applications_for_their_jobs_def
      users_can_view_their_own_applications_def is_job_owner_def
      updateApplicationStatus_def send_applicant_email_def service_role_update_status_def
      accepting_def notify20_def db1_def app20_def job1_def job2_def)

text \<open>
  The e-mail function gives every caller the same answer: it updates with the service
  role and does not look at who calls.
\<close>

lemma send_applicant_email_any_caller:
  "send_applicant_email resend d method (req\<lparr>e_authorization := caller\<rparr>)
     = send_applicant_email resend d method req"
proof -
  have "applicant_email (req\<lparr>e_authorization := caller\<rparr>) = applicant_email req"
    by (simp add: applicant_email_def)
  then show ?thesis
    by (simp add: send_applicant_email_def split: send_result.splits sum.splits)
qed

section \<open>One application per job and applicant\<close>

text \<open>
  Claim C2. In every state of the database a (job, applicant) pair has at most one
  application row. Once the applicant's insert for the pair has succeeded, another
  insert for the same pair by the applicant fails with the unique violation, code
  \<open>23505\<close>, which both pages report as \<open>Already Applied\<close> and not as the generic error;
  the table then holds exactly one row for the pair.
\<close>

theorem one_application_per_job_and_applicant:
  assumes "reachable d"
  shows "length (applications_for d jid uid) \<le> 1 \<and>
    (i_job_id p = jid \<and> i_user_id p = uid \<and> i_job_id q = jid \<and> i_user_id q = uid
       \<and> insert_job_application d (Some uid) p = Inr d' \<longrightarrow>
          insert_job_application d' (Some uid) q = Inl unique_violation
          \<and> code unique_violation = ''23505''
          \<and> length (applications_for d' jid uid) = 1
          \<and> handleApply d' (Some uid) appliedJobs jid = (d', appliedJobs, Some Already_Applied)
          \<and> handleSubmit d' (Some uid) (Some file) (Inr publicUrl) form jid
              = (d', Some Already_Applied))"
proof (intro conjI impI; (elim conjE)?)
  show "length (applications_for d jid uid) \<le> 1"
    using assms by (rule applications_for_le1)
next
  assume p: "i_job_id p = jid" "i_user_id p = uid" and q: "i_job_id q = jid" "i_user_id q = uid"
    and ins: "insert_job_application d (Some uid) p = Inr d'"
  from insert_job_application_Inr[OF ins] p
  have d': "job_applications d' = job_applications d @ [new_job_application d p]"
    and fresh: "\<not> list_ex (\<lambda>r. a_job_id r = jid \<and> a_user_id r = uid) (job_applications d)"
    by auto
  have new: "a_job_id (new_job_application d p) = jid" "a_user_id (new_job_application d p) = uid"
    using p by (simp_all add: new_job_application_def)
  have ex: "list_ex (\<lambda>r. a_job_id r = jid \<and> a_user_id r = uid) (job_applications d')"
    using d' new by (simp add: list_ex_iff)
  have again: "insert_job_application d' (Some uid) r = Inl unique_violation"
    if "i_job_id r = jid" "i_user_id r = uid" for r :: job_applications_insert
    using insert_job_application_again[of r d'] ex that by simp
  show "insert_job_application d' (Some uid) q = Inl unique_violation"
    using again q by simp
  show "code unique_violation = ''23505''" by simp
  show "length (applications_for d' jid uid) = 1"
    using d' new fresh by (simp add: applications_for_def list_ex_iff filter_empty_conv)
  show "handleApply d' (Some uid) appliedJobs jid = (d', appliedJobs, Some Already_Applied)"
    by (simp add: handleApply_def again)
  show "handleSubmit d' (Some uid) (Some file) (Inr publicUrl) form jid = (d', Some Already_Applied)"
    by (simp add: handleSubmit_def again)
qed

text \<open>On the example data: job seeker 20 applies to job 1 twice.\<close>

theorem one_application_per_job_and_applicant_witness:
  "reachable db0 \<and> insert_job_application db0 (Some 20) apply20 = Inr (db1 (Some ''pending''))
   \<and> length (applications_for db0 1 20) \<le> 1
   \<and> insert_job_application (db1 (Some ''pending'')) (Some 20) apply20 = Inl unique_violation
   \<and> length (applications_for (db1 (Some ''pending'')) 1 20) = 1
   \<and> handleApply (db1 (Some ''pending'')) (Some 20) {} 1
        = (db1 (Some ''pending''), {}, Some Already_Applied)"
  using one_application_per_job_and_applicant[OF reachable_db0,
      where p = apply20 and q = apply20 and d' = "db1 (Some ''pending'')" and jid = 1
        and uid = 20 and appliedJobs = "{}"]
    reachable_db0 insert_db0
  by (simp add: apply20_def)

section \<open>Status of a new application\<close>

text \<open>
  Claim C3, as the code has it. A new application row has status \<open>pending\<close> when the
  insert names no status, which is the case for both pages (\<open>handleApply\<close>,
  \<open>handleSubmit\<close>); a status named in the insert is stored as it is.
\<close>

theorem status_at_creation:
  "(insert_job_application d uid p = Inr d' \<longrightarrow>
      job_applications d' = job_applications d @ [new_job_application d p]
      \<and> a_status (new_job_application d p)
          = (case i_status p of DEFAULT \<Rightarrow> Some ''pending'' | VALUE v \<Rightarrow> v))
   \<and> (handleApply d user appliedJobs jobId = (d', appliedJobs', Some Application_Submitted) \<longrightarrow>
        (\<exists>row. job_applications d' = job_applications d @ [row] \<and> a_status row = Some ''pending''))
   \<and> (handleSubmit d user resumeFile upload form jobId = (d', Some Application_Submitted) \<longrightarrow>
        (\<exists>row. job_applications d' = job_applications d @ [row] \<and> a_status row = Some ''pending''))"
proof (intro conjI impI)
  assume "insert_job_application d uid p = Inr d'"
  from insert_job_application_Inr[OF this]
  show "job_applications d' = job_applications d @ [new_job_application d p]" by simp
next
  show "a_status (new_job_application d p)
          = (case i_status p of DEFAULT \<Rightarrow> Some ''pending'' | VALUE v \<Rightarrow> v)"
    by (simp add: new_job_application_def)
next
  assume "handleApply d user appliedJobs jobId = (d', appliedJobs', Some Application_Submitted)"
  then show "\<exists>row. job_applications d' = job_applications d @ [row] \<and> a_status row = Some ''pending''"
    by (auto simp: handleApply_def new_job_application_def
          split: option.splits sum.splits if_splits dest!: insert_job_application_Inr)
next
  assume "handleSubmit d user resumeFile upload form jobId = (d', Some Application_Submitted)"
  then show "\<exists>row. job_applications d' = job_applications d @ [row] \<and> a_status row = Some ''pending''"
    by (auto simp: handleSubmit_def new_job_application_def
          split: option.splits sum.splits if_splits dest!: insert_job_application_Inr)
qed

lemma handleApply_db0:
  "handleApply db0 (Some 20) {} 1 = (db1 (Some ''pending''), {1}, Some Application_Submitted)"
  using insert_db0 by (simp add: handleApply_def apply20_def)

lemma handleSubmit_db0:
  "handleSubmit db0 (Some 20) (Some ''cv.pdf'') (Inr ''r.pdf'') form20 1
     = (db1_form, Some Application_Submitted)"
  by (simp add: handleSubmit_def insert_job_application_def new_job_application_def db0_def
      db1_form_def form20_def job1_def job2_def gen_random_uuid_def permissive_def
      job_applications_insert_check_policies_def users_can_create_their_own_applications_def)

text \<open>On the example data: job seeker 20 applies to job 1 from either page.\<close>

theorem status_at_creation_witness:
  "insert_job_application db0 (Some 20) apply20 = Inr (db1 (Some ''pending''))
   \<and> handleApply db0 (Some 20) {} 1 = (db1 (Some ''pending''), {1}, Some Application_Submitted)
   \<and> handleSubmit db0 (Some 20) (Some ''cv.pdf'') (Inr ''r.pdf'') form20 1
       = (db1_form, Some Application_Submitted)
   \<and> job_applications (db1 (Some ''pending''))
       = job_applications db0 @ [new_job_application db0 apply20]
   \<and> a_status (new_job_application db0 apply20) = Some ''pending''
   \<and> (\<exists>row. job_applications db1_form = job_applications db0 @ [row]
          \<and> a_status row = Some ''pending'')"
  using status_at_creation[of db0 "Some 20" apply20 "db1 (Some ''pending'')" "Some 20" "{}" 1 "{1}"
      "Some ''cv.pdf''" "Inr ''r.pdf''" form20]
    status_at_creation[of db0 "Some 20" apply20 "db1_form" "Some 20" "{}" 1 "{1}"
      "Some ''cv.pdf''" "Inr ''r.pdf''" form20]
    insert_db0 handleApply_db0 handleSubmit_db0
  by (simp add: apply20_def)

text \<open>
  The claim as stated fails: job seeker 20 inserts an application of their own with
  status \<open>selected\<close>, and the row is stored with that status.
\<close>

theorem status_at_creation_counterexample:
  "insert_job_application db0 (Some 20) (apply20\<lparr>i_status := VALUE (Some ''selected'')\<rparr>)
     = Inr (db1 (Some ''selected''))
   \<and> map a_status (job_applications (db1 (Some ''selected''))) = [Some ''selected'']"
  by (simp add: insert_job_application_def new_job_application_def db0_def db1_def apply20_def
      app20_def job1_def job2_def gen_random_uuid_def permissive_def
      job_applications_insert_check_policies_def users_can_create_their_own_applications_def)

section \<open>Sending before updating\<close>

text \<open>
  The handler of \<open>send-applicant-email\<close> hands the mail to the provider before anything
  else. When the send throws, the response is the error (status 500), the database is
  unchanged and no status update was issued. When the send returns, whatever the
  response, the status update follows and the response is the success.
\<close>

lemma handler_throws:
  assumes "send_applicant_email resend d POST req = (resp, d', events)"
    and "resend (applicant_email req) = Throws msg"
  shows "resp = \<lparr>status_code = 500, body = Failure (Error_message msg)\<rparr> \<and> d' = d
          \<and> events = [Email_send (applicant_email req)]"
  using assms by (auto simp: send_applicant_email_def)

lemma handler_returns:
  assumes "send_applicant_email resend d POST req = (resp, d', events)"
    and "resend (applicant_email req) = Returns r"
  shows "resp = \<lparr>status_code = 200, body = Success r\<rparr>
          \<and> service_role_update_status d (e_applicationId req) (e_status req) = Inr d'
          \<and> events = [Email_send (applicant_email req),
                       Status_update (e_applicationId req) (e_status req)]"
  using assms by (auto simp: send_applicant_email_def service_role_update_status_def)

lemma client_throws:
  assumes h: "sendEmailAndUpdateStatus resend d user applicants selectedJob applicant status
         = (d2, applicants2, t, events2)"
    and thr: "\<forall>m. \<exists>msg. resend m = Throws msg"
  shows "d2 = d \<and> applicants2 = applicants \<and> (t = Email_Failed \<or> t = Error_toast)
        \<and> (\<forall>i s. Status_update i s \<notin> set events2)"
proof -
  have handler: "status_code rp = 500 \<and> dd = d \<and> ev = [Email_send (applicant_email r)]"
    if "send_applicant_email resend d POST r = (rp, dd, ev)" for r rp dd ev
  proof -
    from thr obtain msg where "resend (applicant_email r) = Throws msg" by blast
    with that show ?thesis by (auto simp: send_applicant_email_def)
  qed
  show ?thesis
    using h
    by (auto simp: sendEmailAndUpdateStatus_def split: if_splits option.splits prod.splits
        dest!: handler)
qed

text \<open>On the example data, with a provider whose sends throw: the handler answers with
  the error and the page leaves the application as it is.\<close>

lemma handler_failing:
  "send_applicant_email failing (db1_mail (Some ''pending'')) POST (notify20 (Some 10) ''rejected'')
    = (\<lparr>status_code = 500, body = Failure (Error_message ''provider unavailable'')\<rparr>,
       db1_mail (Some ''pending''),
       [Email_send (applicant_email (notify20 (Some 10) ''rejected''))])"
  by (simp add: send_applicant_email_def failing_def)

lemma client_failing:
  "sendEmailAndUpdateStatus failing (db1_mail (Some ''pending'')) (Some 10)
      [app20_mail (Some ''pending'')] (Some job_chosen) (app20_mail (Some ''pending'')) ''rejected''
    = (db1_mail (Some ''pending''), [app20_mail (Some ''pending'')], Email_Failed,
       [Email_send (applicant_email (notify20 (Some 10) ''rejected''))])"
  by (simp add: sendEmailAndUpdateStatus_def send_applicant_email_def failing_def
        app20_mail_def app20_def notify20_def job_chosen_def)

text \<open>
  Claim C4. The claim has a failed send answered with an error and the status left as
  it is. The handler does send first and update afterwards, and a send that throws is
  answered so (the lemmas above). But a send the provider rejects does not throw, and
  the handler never reads the \<open>error\<close> of the response: on the example data employer 10
  rejects application 1, the provider rejects the mail, and the handler still rewrites
  the status to \<open>rejected\<close> and answers 200 with \<open>success: true\<close>; the page sets the
  status in its list and raises \<open>Email Sent!\<close>.
\<close>

theorem rejected_send_still_updates:
  "rejecting (applicant_email (notify20 (Some 10) ''rejected''))
     = Returns \<lparr>c_data = None, c_error = Some ''validation_error''\<rparr>
   \<and> send_applicant_email rejecting (db1_mail (Some ''pending'')) POST
         (notify20 (Some 10) ''rejected'')
     = (\<lparr>status_code = 200,
         body = Success \<lparr>c_data = None, c_error = Some ''validation_error''\<rparr>\<rparr>,
        db1_mail (Some ''rejected''),
        [Email_send (applicant_email (notify20 (Some 10) ''rejected'')),
         Status_update 1 ''rejected''])
   \<and> sendEmailAndUpdateStatus rejecting (db1_mail (Some ''pending'')) (Some 10)
        [app20_mail (Some ''pending'')] (Some job_chosen) (app20_mail (Some ''pending''))
        ''rejected''
     = (db1_mail (Some ''rejected''), [app20_mail (Some ''rejected'')], Email_Sent,
        [Email_send (applicant_email (notify20 (Some 10) ''rejected'')),
         Status_update 1 ''rejected''])"
  by (simp add: sendEmailAndUpdateStatus_def send_applicant_email_def rejecting_def
        service_role_update_status_def db1_mail_def app20_mail_def app20_def notify20_def
        job_chosen_def)

section \<open>Visibility of jobs\<close>

text \<open>Every job a \<open>select\<close> returns is active, whoever asks.\<close>

lemma select_jobs_active:
  "j \<in> set (select_jobs d uid flt) \<Longrightarrow> j_is_active j = Some True"
  by (simp add: select_jobs_def permissive_def jobs_select_policies_def
        anyone_can_view_active_jobs_def)

lemma fetchJobs_active:
  "j \<in> set (fetchJobs d user companyId) \<Longrightarrow> j_is_active j = Some True"
  unfolding fetchJobs_def by (rule select_jobs_active)

text \<open>
  Claim C5. The claim has the owner see their job whatever its \<open>is_active\<close> flag. On
  the example data employer 10 owns the inactive job 2, and \<open>fetchEmployerJobs\<close> for
  employer 10 returns job 1 only: the only \<open>SELECT\<close> policy of \<open>jobs\<close> is
  \<open>is_active = true\<close>.
\<close>

theorem inactive_job_hidden_from_owner:
  "job2 \<in> set (jobs db0) \<and> j_user_id job2 = Some 10 \<and> j_is_active job2 = Some False
   \<and> fetchEmployerJobs db0 (Some 10) [] = [job1]
   \<and> job2 \<notin> set (fetchEmployerJobs db0 (Some 10) [])"
  by (simp add: fetchEmployerJobs_def select_jobs_def permissive_def jobs_select_policies_def
      anyone_can_view_active_jobs_def db0_def job1_def job2_def)

section \<open>The owner's status updates\<close>

text \<open>
  Claim C6. When the caller owns the job of the application \<open>applicationId\<close>, the update
  succeeds whatever the old and the new status are: the row gets the new status, every
  other row is untouched, and the page raises \<open>Status Updated\<close>.
\<close>

theorem owner_sets_any_status:
  assumes "\<forall>r\<in>set (job_applications d). a_id r = applicationId \<longrightarrow> is_job_owner d uid (a_job_id r)"
  shows "update_job_application_status d uid applicationId status
           = Inr (d\<lparr>job_applications :=
                     map (\<lambda>r. if a_id r = applicationId then r\<lparr>a_status := Some status\<rparr> else r)
                       (job_applications d)\<rparr>)
         \<and> updateApplicationStatus d uid applicants applicationId status
           = (d\<lparr>job_applications :=
                  map (\<lambda>r. if a_id r = applicationId then r\<lparr>a_status := Some status\<rparr> else r)
                    (job_applications d)\<rparr>,
              map (\<lambda>app. if a_id app = applicationId then app\<lparr>a_status := Some status\<rparr> else app)
                applicants,
              Status_Updated)"
proof -
  have "update_target d uid applicationId r = (a_id r = applicationId)"
    if "r \<in> set (job_applications d)" for r
  proof (cases "a_id r = applicationId")
    case True
    with that assms have "is_job_owner d uid (a_job_id r)" by blast
    then show ?thesis by (rule update_target_owner)
  next
    case False
    then show ?thesis by (simp add: update_target_def)
  qed
  then have "map (\<lambda>r. if update_target d uid applicationId r then r\<lparr>a_status := Some status\<rparr> else r)
               (job_applications d)
        = map (\<lambda>r. if a_id r = applicationId then r\<lparr>a_status := Some status\<rparr> else r)
               (job_applications d)"
    by (intro map_cong) auto
  then show ?thesis
    by (simp add: update_job_application_status_eq updateApplicationStatus_def)
qed

text \<open>On the example data: employer 10 moves application 1 from \<open>rejected\<close> to
  \<open>shortlisted\<close>, and from \<open>rejected\<close> to \<open>rejected\<close>.\<close>

theorem owner_sets_any_status_witness:
  "is_job_owner (db1 (Some ''rejected'')) (Some 10) (a_job_id (app20 (Some ''rejected'')))
   \<and> update_job_application_status (db1 (Some ''rejected'')) (Some 10) 1 ''shortlisted''
       = Inr (db1 (Some ''shortlisted''))
   \<and> update_job_application_status (db1 (Some ''rejected'')) (Some 10) 1 ''rejected''
       = Inr (db1 (Some ''rejected''))
   \<and> updateApplicationStatus (db1 (Some ''rejected'')) (Some 10) [app20 (Some ''rejected'')] 1
         ''shortlisted''
       = (db1 (Some ''shortlisted''), [app20 (Some ''shortlisted'')], Status_Updated)"
proof -
  have own: "\<forall>r\<in>set (job_applications (db1 (Some ''rejected''))). a_id r = 1
       \<longrightarrow> is_job_owner (db1 (Some ''rejected'')) (Some 10) (a_job_id r)"
    by (simp add: db1_def app20_def is_job_owner_def job1_def job2_def)
  have "is_job_owner (db1 (Some ''rejected'')) (Some 10) (a_job_id (app20 (Some ''rejected'')))"
    by (simp add: db1_def app20_def is_job_owner_def job1_def job2_def)
  then show ?thesis
    using owner_sets_any_status[OF own, of "''shortlisted''" "[app20 (Some ''rejected'')]"]
      owner_sets_any_status[OF own, of "''rejected''" "[]"]
    by (simp add: db1_def app20_def)
qed

lemma update_target_after:
  "update_target (d\<lparr>job_applications := rows\<rparr>) uid i = update_target d uid i"
  by (rule ext)
     (simp add: update_target_def permissive_def job_applications_update_policies_def
        job_applications_select_policies_def
        employers_can_update_applications_for_their_jobs_def
        employers_can_view_applications_for_their_jobs_def is_job_owner_def)

lemma update_target_status [simp]:
  "update_target d uid i (r\<lparr>a_status := s\<rparr>) = update_target d uid i r"
  by (simp add: update_target_def permissive_def job_applications_update_policies_def
        job_applications_select_policies_def
        employers_can_update_applications_for_their_jobs_def
        employers_can_view_applications_for_their_jobs_def
        users_can_view_their_own_applications_def)

lemma update_twice:
  "update_job_application_status d uid i s = Inr d' \<Longrightarrow>
     update_job_application_status d' uid i s = Inr d'"
  by (auto simp: update_job_application_status_eq update_target_after comp_def)

lemma update_same_status:
  assumes "\<forall>r\<in>set (job_applications d). a_id r = i \<longrightarrow> a_status r = Some s"
  shows "update_job_application_status d uid i s = Inr d"
proof -
  have "map (\<lambda>r. if update_target d uid i r then r\<lparr>a_status := Some s\<rparr> else r) (job_applications d)
        = job_applications d"
    using assms by (intro map_idI) (auto simp: update_target_def)
  then show ?thesis by (simp add: update_job_application_status_eq)
qed

text \<open>
  Claim C9. Updating the status to \<open>s\<close> a second time changes neither the database nor
  the page's applicant list nor the toast with respect to the first time, and an update
  to the status the application already has leaves the database as it is.
\<close>

theorem update_status_idempotent:
  "(update_job_application_status d uid i s = Inr d' \<longrightarrow>
      update_job_application_status d' uid i s = Inr d')
   \<and> (updateApplicationStatus d uid applicants i s = (d', applicants', t) \<longrightarrow>
        updateApplicationStatus d' uid applicants' i s = (d', applicants', t))
   \<and> ((\<forall>r\<in>set (job_applications d). a_id r = i \<longrightarrow> a_status r = Some s) \<longrightarrow>
        update_job_application_status d uid i s = Inr d)"
proof (intro conjI impI)
  assume "update_job_application_status d uid i s = Inr d'"
  then show "update_job_application_status d' uid i s = Inr d'" by (rule update_twice)
next
  assume h: "updateApplicationStatus d uid applicants i s = (d', applicants', t)"
  then have u: "update_job_application_status d uid i s = Inr d'"
    and a: "applicants' = map (\<lambda>app. if a_id app = i then app\<lparr>a_status := Some s\<rparr> else app) applicants"
    and t: "t = Status_Updated"
    by (auto simp: updateApplicationStatus_def update_job_application_status_eq)
  have "map (\<lambda>app. if a_id app = i then app\<lparr>a_status := Some s\<rparr> else app) applicants' = applicants'"
    unfolding a by (simp add: comp_def)
  then show "updateApplicationStatus d' uid applicants' i s = (d', applicants', t)"
    using update_twice[OF u] t by (simp add: updateApplicationStatus_def)
next
  assume "\<forall>r\<in>set (job_applications d). a_id r = i \<longrightarrow> a_status r = Some s"
  then show "update_job_application_status d uid i s = Inr d" by (rule update_same_status)
qed

text \<open>On the example data: employer 10 marks application 1 as \<open>reviewed\<close> twice.\<close>

theorem update_status_idempotent_witness:
  "update_job_application_status (db1 (Some ''pending'')) (Some 10) 1 ''reviewed''
     = Inr (db1 (Some ''reviewed''))
   \<and> update_job_application_status (db1 (Some ''reviewed'')) (Some 10) 1 ''reviewed''
     = Inr (db1 (Some ''reviewed''))
   \<and> updateApplicationStatus (db1 (Some ''pending'')) (Some 10) [app20 (Some ''pending'')] 1 ''reviewed''
     = (db1 (Some ''reviewed''), [app20 (Some ''reviewed'')], Status_Updated)
   \<and> updateApplicationStatus (db1 (Some ''reviewed'')) (Some 10) [app20 (Some ''reviewed'')] 1 ''reviewed''
     = (db1 (Some ''reviewed''), [app20 (Some ''reviewed'')], Status_Updated)
   \<and> map a_status (job_applications (db1 (Some ''reviewed''))) = [Some ''reviewed'']"
proof -
  have u: "update_job_application_status (db1 (Some ''pending'')) (Some 10) 1 ''reviewed''
     = Inr (db1 (Some ''reviewed''))"
    by (simp add: update_job_application_status_eq update_target_def permissive_def
      job_applications_update_policies_def job_applications_select_policies_def
      employers_can_update_applications_for_their_jobs_def
      employers_can_view_applications_for_their_jobs_def
      users_can_view_their_own_applications_def is_job_owner_def
      db1_def app20_def job1_def job2_def)
  have c: "updateApplicationStatus (db1 (Some ''pending'')) (Some 10) [app20 (Some ''pending'')] 1 ''reviewed''
     = (db1 (Some ''reviewed''), [app20 (Some ''reviewed'')], Status_Updated)"
    using u by (simp add: updateApplicationStatus_def app20_def)
  have s: "\<forall>r\<in>set (job_applications (db1 (Some ''reviewed''))). a_id r = 1
         \<longrightarrow> a_status r = Some ''reviewed''"
    by (simp add: db1_def app20_def)
  have m: "map a_status (job_applications (db1 (Some ''reviewed''))) = [Some ''reviewed'']"
    by (simp add: db1_def app20_def)
  have again: "update_job_application_status (db1 (Some ''reviewed'')) (Some 10) 1 ''reviewed''
     = Inr (db1 (Some ''reviewed''))"
    using s update_status_idempotent[of "db1 (Some ''reviewed'')" "Some 10" 1 "''reviewed''"
        "db1 (Some ''reviewed'')" "[]" "[]" Status_Updated]
    by blast
  show ?thesis
    using u c m again
      update_status_idempotent[of "db1 (Some ''pending'')" "Some 10" 1 "''reviewed''"
        "db1 (Some ''reviewed'')" "[app20 (Some ''pending'')]" "[app20 (Some ''reviewed'')]"
        Status_Updated]
    by simp
qed

section \<open>Sending the shortlist to the boss\<close>

text \<open>
  Claim C7. A \<open>send-to-boss\<close> request with an empty \<open>bossEmail\<close> or an empty applicant
  list is answered with the error \<open>Missing required fields\<close> (status 500) and no mail is
  handed to the provider; the page itself raises the error toast and calls nothing when
  the trimmed boss e-mail is empty or there is no applicant to send.
\<close>

theorem bulk_notify_validation:
  "(s_bossEmail req = [] \<or> s_shortlistedApplicants req = [] \<longrightarrow>
      send_to_boss resend POST req
        = (\<lparr>status_code = 500,
            body = Failure (Error_message
              ''Missing required fields: bossEmail, jobTitle, or shortlistedApplicants'')\<rparr>, []))
   \<and> (trim bossEmail = [] \<or> applicantsToSend filtered = [] \<longrightarrow>
        handleSendToBoss resend sign trim bossEmail optionalMessage selectedJob filtered
          = (Error_toast, []))"
  by (auto simp: send_to_boss_def handleSendToBoss_def split: option.splits)

text \<open>On the example data: a request without applicants, one without recipient, and the
  page with a blank recipient or without applicants.\<close>

theorem bulk_notify_validation_witness:
  "send_to_boss accepting POST (boss_request ''boss@example.org'' [])
     = (\<lparr>status_code = 500,
         body = Failure (Error_message
           ''Missing required fields: bossEmail, jobTitle, or shortlistedApplicants'')\<rparr>, [])
   \<and> send_to_boss accepting POST (boss_request [] [ann])
     = (\<lparr>status_code = 500,
         body = Failure (Error_message
           ''Missing required fields: bossEmail, jobTitle, or shortlistedApplicants'')\<rparr>, [])
   \<and> trim_ascii ''  '' = [] \<and> applicantsToSend [] = []
   \<and> handleSendToBoss accepting id trim_ascii ''  '' [] (Some job_chosen)
        [applicant_row 1 ''Ann'' 4 ''shortlisted'']
       = (Error_toast, [])
   \<and> handleSendToBoss accepting id trim_ascii ''boss@example.org'' [] (Some job_chosen) []
       = (Error_toast, [])"
proof -
  have t: "trim_ascii ''  '' = []" by (simp add: trim_ascii_def ascii_white_space_def)
  have e: "applicantsToSend [] = []" by (simp add: applicantsToSend_def shortlistedApplicants_def)
  show ?thesis
    using t e
      bulk_notify_validation[of "boss_request ''boss@example.org'' []" accepting trim_ascii "''  ''"
        "[applicant_row 1 ''Ann'' 4 ''shortlisted'']" id "[]" "Some job_chosen"]
      bulk_notify_validation[of "boss_request [] [ann]" accepting trim_ascii "''boss@example.org''"
        "[]" id "[]" "Some job_chosen"]
    by (simp add: boss_request_def)
qed

text \<open>
  Claim C10. When some applicant of the filtered list has status \<open>shortlisted\<close>, the
  applicants sent are exactly the shortlisted ones of that list; when none has, they are
  the whole filtered list. With a recipient, a job title and a non-empty filtered list,
  the page hands exactly one mail to the provider, and its table has one row for each
  of these applicants, in their order, with the applicant's name, age, experience and
  resume link: for every applicant of the filtered list when none is shortlisted, for
  the shortlisted ones otherwise. The toast is \<open>Email Sent!\<close> when the send returns and
  \<open>Failed to Send\<close> when it throws.
\<close>

theorem send_to_boss_fallback:
  "(list_ex (\<lambda>a. a_status a = Some ''shortlisted'') filtered \<longrightarrow>
      applicantsToSend filtered = filter (\<lambda>a. a_status a = Some ''shortlisted'') filtered)
   \<and> (\<not> list_ex (\<lambda>a. a_status a = Some ''shortlisted'') filtered \<longrightarrow>
        applicantsToSend filtered = filtered)
   \<and> (trim bossEmail \<noteq> [] \<and> v_title job \<noteq> [] \<and> filtered \<noteq> [] \<longrightarrow>
        handleSendToBoss resend sign trim bossEmail optionalMessage (Some job) filtered
          = (let mail =
                 \<lparr>m_from = or_else (v_company job) ''Our Company''
                            @ '' Hiring <onboarding@resend.dev>'',
                  m_to = [trim bossEmail],
                  m_subject = ''Shortlisted Candidates for '' @ v_title job,
                  m_listed =
                    map (\<lambda>a. \<lparr>b_name = or_else (a_applicant_name a) ''Unknown'',
                               b_age = a_age a,
                               b_experienceYears = a_experience_years a,
                               b_resumeUrl =
                                 (case a_resume_url a of
                                    None \<Rightarrow> None
                                  | Some url \<Rightarrow> if url = [] then None else Some (sign url))\<rparr>)
                      (if list_ex (\<lambda>a. a_status a = Some ''shortlisted'') filtered
                       then filter (\<lambda>a. a_status a = Some ''shortlisted'') filtered
                       else filtered)\<rparr>
             in (case resend mail of Throws msg \<Rightarrow> Failed_to_Send | Returns r \<Rightarrow> Email_Sent,
                 [Email_send mail])))"
proof (intro conjI impI; (elim conjE)?)
  assume "list_ex (\<lambda>a. a_status a = Some ''shortlisted'') filtered"
  then show "applicantsToSend filtered = filter (\<lambda>a. a_status a = Some ''shortlisted'') filtered"
    by (auto simp: applicantsToSend_def shortlistedApplicants_def list_ex_iff filter_empty_conv)
next
  assume "\<not> list_ex (\<lambda>a. a_status a = Some ''shortlisted'') filtered"
  then show "applicantsToSend filtered = filtered"
    by (auto simp: applicantsToSend_def shortlistedApplicants_def list_ex_iff filter_empty_conv)
next
  assume b: "trim bossEmail \<noteq> []" and j: "v_title job \<noteq> []" and f: "filtered \<noteq> []"
  let ?short = "filter (\<lambda>a. a_status a = Some ''shortlisted'') filtered"
  let ?sent = "if list_ex (\<lambda>a. a_status a = Some ''shortlisted'') filtered then ?short else filtered"
  have sent: "applicantsToSend filtered = ?sent"
    by (auto simp: applicantsToSend_def shortlistedApplicants_def list_ex_iff filter_empty_conv)
  have ne: "?sent \<noteq> []"
    using f by (auto simp: list_ex_iff filter_empty_conv)
  show "handleSendToBoss resend sign trim bossEmail optionalMessage (Some job) filtered
          = (let mail =
                 \<lparr>m_from = or_else (v_company job) ''Our Company''
                            @ '' Hiring <onboarding@resend.dev>'',
                  m_to = [trim bossEmail],
                  m_subject = ''Shortlisted Candidates for '' @ v_title job,
                  m_listed =
                    map (\<lambda>a. \<lparr>b_name = or_else (a_applicant_name a) ''Unknown'',
                               b_age = a_age a,
                               b_experienceYears = a_experience_years a,
                               b_resumeUrl =
                                 (case a_resume_url a of
                                    None \<Rightarrow> None
                                  | Some url \<Rightarrow> if url = [] then None else Some (sign url))\<rparr>)
                      ?sent\<rparr>
             in (case resend mail of Throws msg \<Rightarrow> Failed_to_Send | Returns r \<Rightarrow> Email_Sent,
                 [Email_send mail]))"
    unfolding handleSendToBoss_def sent
    using b j ne
    by (auto simp: send_to_boss_def boss_email_def applicantsWithSignedUrls_def Let_def
          split: send_result.splits)
qed

text \<open>On the example data: of three applicants one is shortlisted, and she alone is sent;
  with the experience filter at most 7 years two applicants are left, none shortlisted,
  and both are sent.\<close>

theorem send_to_boss_fallback_witness:
  "filteredApplicants three (Num 0) Infinity ''all'' = three
   \<and> applicantsToSend three = [applicant_row 1 ''Ann'' 9 ''shortlisted'']
   \<and> handleSendToBoss accepting id trim_ascii ''boss@example.org'' [] (Some job_chosen) three
       = (Email_Sent,
          [Email_send
            \<lparr>m_from = ''DataFlow Systems Hiring <onboarding@resend.dev>'',
             m_to = [''boss@example.org''],
             m_subject = ''Shortlisted Candidates for Data Analyst'',
             m_listed = [\<lparr>b_name = ''Ann'', b_age = None, b_experienceYears = Some 9,
                          b_resumeUrl = None\<rparr>]\<rparr>])
   \<and> filteredApplicants three (Num 0) (Num 7) ''all''
       = [applicant_row 2 ''Bob'' 6 ''reviewed'', applicant_row 3 ''Cy'' 1 ''pending'']
   \<and> applicantsToSend [applicant_row 2 ''Bob'' 6 ''reviewed'', applicant_row 3 ''Cy'' 1 ''pending'']
       = [applicant_row 2 ''Bob'' 6 ''reviewed'', applicant_row 3 ''Cy'' 1 ''pending'']
   \<and> handleSendToBoss accepting id trim_ascii ''boss@example.org'' [] (Some job_chosen)
        [applicant_row 2 ''Bob'' 6 ''reviewed'', applicant_row 3 ''Cy'' 1 ''pending'']
       = (Email_Sent,
          [Email_send
            \<lparr>m_from = ''DataFlow Systems Hiring <onboarding@resend.dev>'',
             m_to = [''boss@example.org''],
             m_subject = ''Shortlisted Candidates for Data Analyst'',
             m_listed = [\<lparr>b_name = ''Bob'', b_age = None, b_experienceYears = Some 6,
                          b_resumeUrl = None\<rparr>,
                         \<lparr>b_name = ''Cy'', b_age = None, b_experienceYears = Some 1,
                          b_resumeUrl = None\<rparr>]\<rparr>])"
proof -
  let ?two = "[applicant_row 2 ''Bob'' 6 ''reviewed'', applicant_row 3 ''Cy'' 1 ''pending'']"
  have f1: "filteredApplicants three (Num 0) Infinity ''all'' = three"
    by (simp add: filteredApplicants_def three_def applicant_row_def)
  have f2: "filteredApplicants three (Num 0) (Num 7) ''all'' = ?two"
    by (simp add: filteredApplicants_def three_def applicant_row_def)
  have s1: "list_ex (\<lambda>a. a_status a = Some ''shortlisted'') three"
    by (simp add: three_def applicant_row_def)
  have s2: "\<not> list_ex (\<lambda>a. a_status a = Some ''shortlisted'') ?two"
    by (simp add: applicant_row_def)
  have t: "trim_ascii ''boss@example.org'' = ''boss@example.org''"
    by (simp add: trim_ascii_def ascii_white_space_def)
  have j: "v_title job_chosen \<noteq> []" by (simp add: job_chosen_def)
  have n1: "three \<noteq> []" by (simp add: three_def)
  note shortlisted =
    send_to_boss_fallback[of three trim_ascii "''boss@example.org''" job_chosen accepting id "[]"]
  note fallback =
    send_to_boss_fallback[of ?two trim_ascii "''boss@example.org''" job_chosen accepting id "[]"]
  have a1: "applicantsToSend three = [applicant_row 1 ''Ann'' 9 ''shortlisted'']"
    using shortlisted s1 by (simp add: three_def applicant_row_def)
  have a2: "applicantsToSend ?two = ?two"
    using fallback s2 by simp
  have m1: "handleSendToBoss accepting id trim_ascii ''boss@example.org'' [] (Some job_chosen) three
       = (Email_Sent,
          [Email_send
            \<lparr>m_from = ''DataFlow Systems Hiring <onboarding@resend.dev>'',
             m_to = [''boss@example.org''],
             m_subject = ''Shortlisted Candidates for Data Analyst'',
             m_listed = [\<lparr>b_name = ''Ann'', b_age = None, b_experienceYears = Some 9,
                          b_resumeUrl = None\<rparr>]\<rparr>])"
    using shortlisted s1 t j n1
    by (simp add: job_chosen_def three_def applicant_row_def accepting_def)
  have m2: "handleSendToBoss accepting id trim_ascii ''boss@example.org'' [] (Some job_chosen) ?two
       = (Email_Sent,
          [Email_send
            \<lparr>m_from = ''DataFlow Systems Hiring <onboarding@resend.dev>'',
             m_to = [''boss@example.org''],
             m_subject = ''Shortlisted Candidates for Data Analyst'',
             m_listed = [\<lparr>b_name = ''Bob'', b_age = None, b_experienceYears = Some 6,
                          b_resumeUrl = None\<rparr>,
                         \<lparr>b_name = ''Cy'', b_age = None, b_experienceYears = Some 1,
                          b_resumeUrl = None\<rparr>]\<rparr>])"
    using fallback s2 t j
    by (simp add: job_chosen_def applicant_row_def accepting_def)
  show ?thesis using f1 f2 a1 a2 m1 m2 by simp
qed

section \<open>Roles are written once\<close>

text \<open>
  Claim C8. An insert of a role for a user who has one fails with the unique
  violation, code \<open>23505\<close>, when that user issues it, and with the policy violation
  when anybody else does; an insert succeeds only for the caller's own user, who had no
  role, and adds one row behind the existing ones; an update or a delete on
  \<open>user_roles\<close> changes nothing, whoever issues it and whatever it names.
\<close>

theorem role_written_once:
  "(list_ex (\<lambda>r. r_user_id r = u) (user_roles d) \<longrightarrow>
      insert_user_role d (Some u) u role = Inl unique_violation
      \<and> code unique_violation = ''23505'')
   \<and> (uid \<noteq> Some u \<longrightarrow> insert_user_role d uid u role = Inl insufficient_privilege)
   \<and> (insert_user_role d uid u role = Inr d' \<longrightarrow>
        uid = Some u \<and> \<not> list_ex (\<lambda>r. r_user_id r = u) (user_roles d)
        \<and> (\<exists>row. user_roles d' = user_roles d @ [row] \<and> r_user_id row = u \<and> r_role row = role))
   \<and> update_user_roles d uid flt set_columns = Inr d
   \<and> delete_user_roles d uid flt = d"
proof (intro conjI impI)
  assume "list_ex (\<lambda>r. r_user_id r = u) (user_roles d)"
  then show "insert_user_role d (Some u) u role = Inl unique_violation"
    by (simp add: insert_user_role_def permissive_def user_roles_insert_check_policies_def
          users_can_insert_their_own_role_def)
next
  show "code unique_violation = ''23505''" by simp
next
  assume "uid \<noteq> Some u"
  then show "insert_user_role d uid u role = Inl insufficient_privilege"
    by (cases uid)
       (auto simp: insert_user_role_def permissive_def user_roles_insert_check_policies_def
          users_can_insert_their_own_role_def)
next
  assume h: "insert_user_role d uid u role = Inr d'"
  then show "uid = Some u"
    by (cases uid)
       (auto simp: insert_user_role_def permissive_def user_roles_insert_check_policies_def
          users_can_insert_their_own_role_def Let_def split: if_splits)
  from h show "\<not> list_ex (\<lambda>r. r_user_id r = u) (user_roles d)"
    by (auto simp: insert_user_role_def Let_def split: if_splits)
  from h show "\<exists>row. user_roles d' = user_roles d @ [row] \<and> r_user_id row = u \<and> r_role row = role"
    by (auto simp: insert_user_role_def Let_def split: if_splits)
next
  show "update_user_roles d uid flt set_columns = Inr d"
    by (simp add: update_user_roles_def user_roles_target_def user_roles_update_policies_def
          permissive_def list_ex_iff)
next
  show "delete_user_roles d uid flt = d"
    by (simp add: delete_user_roles_def user_roles_target_def user_roles_delete_policies_def
          permissive_def)
qed

text \<open>On the example data: job seeker 20 has a role; employer 10 has none yet.\<close>

theorem role_written_once_witness:
  "list_ex (\<lambda>r. r_user_id r = 20) (user_roles db2)
   \<and> insert_user_role db2 (Some 20) 20 employer = Inl unique_violation
   \<and> insert_user_role db2 (Some 10) 20 employer = Inl insufficient_privilege
   \<and> insert_user_role db2 (Some 10) 10 employer = Inr db2_more
   \<and> update_user_roles db2 (Some 20) (\<lambda>r. r_user_id r = 20) (\<lambda>r. r\<lparr>r_role := employer\<rparr>) = Inr db2
   \<and> delete_user_roles db2 (Some 20) (\<lambda>r. r_user_id r = 20) = db2"
proof -
  have ex: "list_ex (\<lambda>r. r_user_id r = 20) (user_roles db2)" by (simp add: db2_def)
  have ins: "insert_user_role db2 (Some 10) 10 employer = Inr db2_more"
    by (simp add: insert_user_role_def db2_more_def db2_def permissive_def
          user_roles_insert_check_policies_def users_can_insert_their_own_role_def
          gen_random_uuid_def)
  show ?thesis
    using ex ins
      role_written_once[of 20 db2 employer "Some 10" db2_more "\<lambda>r. r_user_id r = 20"
        "\<lambda>r. r\<lparr>r_role := employer\<rparr>"]
      role_written_once[of 20 db2 employer "Some 20" db2_more "\<lambda>r. r_user_id r = 20"
        "\<lambda>r. r\<lparr>r_role := employer\<rparr>"]
    by simp
qed

end
